theory Spec2Isabelle
  imports Main "HOL-Library.Word"
begin

section \<open>The TCP engine of \<^verbatim>\<open>net/tcpengine.go\<close>\<close>

text \<open>
  The engine owns a table of command handlers, a table of RPC method handlers, a running
  flag and a set of hook slots. Its operations mutate the engine through a pointer, call
  user functions and talk to a connection. The model passes the engine explicitly, returns
  a panic as a value next to the engine as it stands when the panic is raised, and records
  every call the engine makes on a collaborator as an action of a trace.
\<close>

subsection \<open>Data\<close>

text \<open>
  A Go \<^verbatim>\<open>[]byte\<close> and a Go \<^verbatim>\<open>string\<close> are both sequences of bytes, and
  the conversions between them keep every byte. An Isabelle \<^typ>\<open>char\<close> is one byte, so both
  are character lists here and the two conversions are the identity. Pointers to clients and
  function values are compared by identity only: a natural number stands for each of them.
\<close>

type_synonym cmd = "32 word"
type_synonym bytes = "char list"
type_synonym client = nat
type_synonym func = nat

text \<open>
  Declarations the engine uses that live in other files of the package: the reserved command
  codes, the ceiling of the user commands, the length of the message header and the
  accessors of \<^verbatim>\<open>Message\<close> that decode the header and decrypt a frame. They are
  parameters of every operation below, and so is the width of Go's \<^verbatim>\<open>int\<close>, which
  is 32 or 64 bits with the target the package is compiled for.
\<close>

record decls =
  intBits :: nat
  CmdPing :: cmd
  CmdPing2 :: cmd
  CmdSetReaIp :: cmd
  CmdRpcMethod :: cmd
  CmdRpcError :: cmd
  CmdUserMax :: cmd
  DEFAULT_MESSAGE_HEAD_LEN :: nat
  Cmd :: "bytes \<Rightarrow> cmd"
  BodyLen :: "bytes \<Rightarrow> 32 word"
  RpcSeq :: "bytes \<Rightarrow> 64 word"
  Decrypt :: "client \<Rightarrow> bytes \<Rightarrow> bytes option"

text \<open>
  Modelled from the spec: \<^verbatim>\<open>Message\<close> is declared outside this file. The spec
  describes it as a fixed-size header followed by a body buffer; \<^verbatim>\<open>data\<close> holds
  both, \<^verbatim>\<open>rawData\<close> the frame as it was read, and \<^verbatim>\<open>Body()\<close> is what follows
  the header in \<^verbatim>\<open>data\<close>.
\<close>

record message =
  data :: bytes
  rawData :: bytes

text \<open>
  The value a two's complement \<^verbatim>\<open>int\<close> of \<open>w\<close> bits holds for the integer
  \<open>x\<close>: \<open>x\<close> itself from \<open>- 2 ^ (w - 1)\<close> to \<open>2 ^ (w - 1) - 1\<close>, wrapped
  around outside. Conversions to \<^verbatim>\<open>int\<close> and sums of \<^verbatim>\<open>int\<close>s go through it.
\<close>

definition goInt :: "nat \<Rightarrow> int \<Rightarrow> int" where
  "goInt w x = (x + 2 ^ (w - 1)) mod 2 ^ w - 2 ^ (w - 1)"

definition Body :: "decls \<Rightarrow> message \<Rightarrow> bytes" where
  "Body P msg = drop (DEFAULT_MESSAGE_HEAD_LEN P) (data msg)"

text \<open>
  \<^verbatim>\<open>RpcContext\<close>, with its field \<^verbatim>\<open>method\<close> under the name \<open>rpcMethod\<close>
  (the source's name is a keyword of Isabelle).
\<close>

record rpc_context =
  rpcMethod :: string
  client :: client
  message :: message

text \<open>The values a panic of the engine carries, and the errors of the connection.\<close>

datatype fault =
    ErrorReservedCmdPing
  | ErrorReservedCmdSetRealip
  | ErrorReservedCmdRpcMethod
  | ErrorReservedCmdRpcError
  | ErrorReservedCmdInternal
  | HandlerExists cmd
  | MethodExists string
  | NilMapAssignment
  | UserFault string

datatype error = ErrTcpClientWriteHalf | ErrUnexpectedEOF | EOF | ConnError string

text \<open>
  The connection is the operating system's, so what it does is an input: the bytes that
  arrive before the read deadline, the error it reports when they run out, the outcomes of
  the successive \<^verbatim>\<open>SetReadDeadline\<close> calls (none left: success), the outcome of
  \<^verbatim>\<open>SetWriteDeadline\<close>, and the result of \<^verbatim>\<open>Write\<close> on a buffer.
\<close>

record conn =
  incoming :: bytes
  readErr :: error
  readDeadlineErrs :: "error option list"
  writeDeadlineErr :: "error option"
  writeResult :: "bytes \<Rightarrow> int \<times> error option"

text \<open>
  What the tables hold. \<^verbatim>\<open>Handle\<close> stores the user's function as it is,
  \<^verbatim>\<open>HandleRpcCmd\<close> stores one of two closures around it, and
  \<^verbatim>\<open>initRpcHandler\<close> stores the method value \<^verbatim>\<open>engine.onRpcMethod\<close>, which
  reads the engine at the time of the call, not at the time of the binding.
\<close>

datatype cmd_entry =
    UserHandler func
  | RpcCmdSync func
  | RpcCmdAsync func
  | BoundOnRpcMethod

datatype rpc_entry = RpcDirect func | RpcAsync func

record engine =
  handlers :: "cmd \<rightharpoonup> cmd_entry"
  rpcMethodHandlers :: "(string \<rightharpoonup> rpc_entry) option"
  running :: bool
  sockMaxPackLen :: int
  recvHandler :: "(client \<Rightarrow> conn \<Rightarrow> message option \<times> conn) option"
  sendHandler :: "(client \<Rightarrow> bytes \<Rightarrow> error option) option"
  onMsgHandler :: "func option"

definition NewTcpEngine :: "int \<Rightarrow> engine" where
  "NewTcpEngine DefaultSockPackMaxLen =
     \<lparr> handlers = Map.empty,
       rpcMethodHandlers = None,
       running = True,
       sockMaxPackLen = DefaultSockPackMaxLen,
       recvHandler = None,
       sendHandler = None,
       onMsgHandler = None \<rparr>"

subsection \<open>Registration\<close>

text \<open>
  Modelled from the spec: \<^verbatim>\<open>log.Panic\<close> belongs to the logging package; the spec
  calls what it raises a fatal configuration fault, so it is a panic here, as the builtin
  \<^verbatim>\<open>panic\<close> of \<^verbatim>\<open>HandleRpcCmd\<close> is. A registration returns the panic, if any,
  and the engine as the call leaves it.
\<close>

definition Handle :: "decls \<Rightarrow> cmd \<Rightarrow> func \<Rightarrow> engine \<Rightarrow> fault option \<times> engine" where
  "Handle P cmd handler e =
     (if cmd = CmdPing P then (Some ErrorReservedCmdPing, e)
      else if cmd = CmdSetReaIp P then (Some ErrorReservedCmdSetRealip, e)
      else if cmd = CmdRpcMethod P then (Some ErrorReservedCmdRpcMethod, e)
      else if cmd = CmdRpcError P then (Some ErrorReservedCmdRpcError, e)
      else if cmd > CmdUserMax P then (Some ErrorReservedCmdInternal, e)
      else (case handlers e cmd of
              Some _ \<Rightarrow> (Some (HandlerExists cmd), e)
            | None \<Rightarrow> (None, e\<lparr>handlers := (handlers e)(cmd \<mapsto> UserHandler handler)\<rparr>)))"

definition HandleRpcCmd :: "decls \<Rightarrow> cmd \<Rightarrow> func \<Rightarrow> bool \<Rightarrow> engine \<Rightarrow> fault option \<times> engine" where
  "HandleRpcCmd P cmd handler async e =
     (if cmd = CmdPing P then (Some ErrorReservedCmdPing, e)
      else if cmd = CmdSetReaIp P then (Some ErrorReservedCmdSetRealip, e)
      else if cmd = CmdRpcMethod P then (Some ErrorReservedCmdRpcMethod, e)
      else if cmd = CmdRpcError P then (Some ErrorReservedCmdRpcError, e)
      else if cmd > CmdUserMax P then (Some ErrorReservedCmdInternal, e)
      else (case handlers e cmd of
              Some _ \<Rightarrow> (Some (HandlerExists cmd), e)
            | None \<Rightarrow>
                if async
                then (None, e\<lparr>handlers := (handlers e)(cmd \<mapsto> RpcCmdAsync handler)\<rparr>)
                else (None, e\<lparr>handlers := (handlers e)(cmd \<mapsto> RpcCmdSync handler)\<rparr>)))"

definition initRpcHandler :: "decls \<Rightarrow> engine \<Rightarrow> engine" where
  "initRpcHandler P e =
     (case rpcMethodHandlers e of
        None \<Rightarrow> e\<lparr>rpcMethodHandlers := Some Map.empty,
                  handlers := (handlers e)(CmdRpcMethod P \<mapsto> BoundOnRpcMethod)\<rparr>
      | Some _ \<Rightarrow> e)"

text \<open>Reading a nil map finds nothing; writing to one panics.\<close>

definition rpcLookup :: "engine \<Rightarrow> string \<Rightarrow> rpc_entry option" where
  "rpcLookup e m = (case rpcMethodHandlers e of None \<Rightarrow> None | Some t \<Rightarrow> t m)"

text \<open>The variadic \<^verbatim>\<open>args ...interface{}\<close>: only a leading boolean is looked at.\<close>

datatype arg = BoolArg bool | OtherArg

definition HandleRpcMethod ::
  "decls \<Rightarrow> string \<Rightarrow> func \<Rightarrow> arg list \<Rightarrow> engine \<Rightarrow> fault option \<times> engine" where
  "HandleRpcMethod P m handler args e =
     (let ea = initRpcHandler P e in
      case rpcLookup ea m of
        Some _ \<Rightarrow> (Some (MethodExists m), ea)
      | None \<Rightarrow>
          (let async = (case args of BoolArg a # _ \<Rightarrow> a | _ \<Rightarrow> False) in
           case rpcMethodHandlers ea of
             None \<Rightarrow> (Some NilMapAssignment, ea)
           | Some t \<Rightarrow>
               if async
               then (None, ea\<lparr>rpcMethodHandlers := Some (t(m \<mapsto> RpcAsync handler))\<rparr>)
               else (None, ea\<lparr>rpcMethodHandlers := Some (t(m \<mapsto> RpcDirect handler))\<rparr>)))"

subsection \<open>Actions on the collaborators\<close>

text \<open>
  The messages the engine builds itself: the package's \<^verbatim>\<open>ping2Msg\<close> and the result of
  \<^verbatim>\<open>NewRpcMessage(cmd, seq, body)\<close>, both declared outside this file and kept as
  constructors.
\<close>

datatype out_msg = ping2Msg | NewRpcMessage cmd "64 word" bytes

text \<open>
  One action for each call the engine makes on something it does not own: the client
  (\<^verbatim>\<open>SendMsg\<close>, \<^verbatim>\<open>Stop\<close>), the wait group embedded in the engine
  (\<^verbatim>\<open>Add\<close>, \<^verbatim>\<open>Done\<close>), a user function, \<^verbatim>\<open>util.Go\<close>, the logger, the
  allocator and the connection. \<^verbatim>\<open>Recovered\<close> is the panic that a deferred
  \<^verbatim>\<open>util.HandlePanic\<close> caught.
\<close>

datatype action =
    SendMsg client out_msg
  | Stop client
  | WgAdd int
  | WgDone
  | CallHandler func client message
  | CallRpc func rpc_context
  | Go action
  | Recovered fault
  | LogDebug string
  | MakeHead nat
  | MakeBody nat
  | SetReadDeadline client
  | ReadFull client nat
  | DecryptMsg client
  | SetWriteDeadline client
  | Write client bytes

text \<open>
  What a call of a user function does to its caller is an input of the model: it returns
  (\<open>None\<close>) or it panics with a value.
\<close>

type_synonym behaviour = "action \<Rightarrow> fault option"

text \<open>The counter of the wait group after a trace, starting from 0.\<close>

fun wgCount :: "action list \<Rightarrow> int" where
  "wgCount [] = 0"
| "wgCount (WgAdd n # as) = n + wgCount as"
| "wgCount (WgDone # as) = wgCount as - 1"
| "wgCount (_ # as) = wgCount as"

subsection \<open>The RPC sub-dispatcher\<close>

text \<open>\<^verbatim>\<open>%d\<close> of a number that is never negative.\<close>

fun itoa :: "nat \<Rightarrow> string" where
  "itoa n = (if n < 10 then [''0123456789'' ! n]
             else itoa (n div 10) @ [''0123456789'' ! (n mod 10)])"

declare itoa.simps [simp del]

definition callRpcEntry :: "behaviour \<Rightarrow> rpc_entry \<Rightarrow> rpc_context \<Rightarrow> fault option \<times> action list" where
  "callRpcEntry B h ctx =
     (case h of
        RpcDirect f \<Rightarrow> (B (CallRpc f ctx), [CallRpc f ctx])
      | RpcAsync f \<Rightarrow> (None, [Go (CallRpc f ctx)]))"

text \<open>
  \<^verbatim>\<open>onRpcMethod\<close> returns the panic that leaves it (if any), its trace, and the message
  as the call leaves it: the message is truncated through the pointer, so the caller sees
  the cut. \<open>methodLen\<close> is the value of one byte, so it is a natural number; the
  subtractions below are guarded by the checks before them, as in the source.
\<close>

definition onRpcMethod ::
  "decls \<Rightarrow> behaviour \<Rightarrow> engine \<Rightarrow> client \<Rightarrow> message \<Rightarrow> fault option \<times> action list \<times> message" where
  "onRpcMethod P B e c msg =
     (let d = Body P msg in
      if length d < 2
      then (None, [SendMsg c (NewRpcMessage (CmdRpcError P) (RpcSeq P (data msg))
                     ''invalid rpc payload'')], msg)
      else
        (let methodLen = (of_char (d ! (length d - 1)) :: nat) in
         if methodLen \<le> 0 \<or> methodLen \<ge> 128 \<or> length d - 1 < methodLen
         then (None, [SendMsg c (NewRpcMessage (CmdRpcError P) (RpcSeq P (data msg))
                        (''invalid rpc method length '' @ itoa methodLen @
                         '', should be (1-127)''))], msg)
         else
           (let m = drop (length d - 1 - methodLen) (take (length d - 1) d) in
            case rpcLookup e m of
              None \<Rightarrow>
                (None, [SendMsg c (NewRpcMessage (CmdRpcError P) (RpcSeq P (data msg))
                          (''invalid rpc method '' @ m))], msg)
            | Some handler \<Rightarrow>
                (let msg' = msg\<lparr>data := take (length (data msg) - 1 - methodLen) (data msg)\<rparr>;
                     ctx = \<lparr>rpcMethod = m, client = c, message = msg'\<rparr>;
                     (p, tr) = callRpcEntry B handler ctx
                 in (p, tr, msg')))))"

subsection \<open>The command dispatcher\<close>

definition callEntry ::
  "decls \<Rightarrow> behaviour \<Rightarrow> engine \<Rightarrow> cmd_entry \<Rightarrow> client \<Rightarrow> message \<Rightarrow> fault option \<times> action list" where
  "callEntry P B e h c msg =
     (case h of
        UserHandler f \<Rightarrow> (B (CallHandler f c msg), [CallHandler f c msg])
      | RpcCmdSync f \<Rightarrow>
          (let ctx = \<lparr>rpcMethod = [], client = c, message = msg\<rparr>
           in (B (CallRpc f ctx), [CallRpc f ctx]))
      | RpcCmdAsync f \<Rightarrow>
          (let ctx = \<lparr>rpcMethod = [], client = c, message = msg\<rparr>
           in (None, [Go (CallRpc f ctx)]))
      | BoundOnRpcMethod \<Rightarrow>
          (let (p, tr, msg') = onRpcMethod P B e c msg in (p, tr)))"

text \<open>
  Modelled from the spec: \<^verbatim>\<open>util.HandlePanic\<close> belongs to the utility package; the spec
  says that a fault raised inside the handler is caught and logged. Deferred, it turns the
  panic of the handler into an action and lets the caller return.
\<close>

definition HandlePanic :: "fault option \<Rightarrow> action list" where
  "HandlePanic p = (case p of None \<Rightarrow> [] | Some f \<Rightarrow> [Recovered f])"

text \<open>
  The two deferred calls run in the reverse of their order: \<^verbatim>\<open>util.HandlePanic\<close>
  first, \<^verbatim>\<open>engine.Done\<close> last. A panic of the override is not recovered here.
\<close>

definition OnMessage ::
  "decls \<Rightarrow> behaviour \<Rightarrow> engine \<Rightarrow> client \<Rightarrow> message \<Rightarrow> fault option \<times> action list" where
  "OnMessage P B e c msg =
     (if \<not> running e then (None, [])
      else
        (case onMsgHandler e of
           Some f \<Rightarrow> (B (CallHandler f c msg), [CallHandler f c msg])
         | None \<Rightarrow>
             (let cmd = Cmd P (data msg) in
              if cmd = CmdPing P then (None, [SendMsg c ping2Msg])
              else if cmd = CmdPing2 P then (None, [])
              else
                (case handlers e cmd of
                   Some handler \<Rightarrow>
                     (let (p, tr) = callEntry P B e handler c msg
                      in (None, [WgAdd 1] @ tr @ HandlePanic p @ [WgDone]))
                 | None \<Rightarrow> (None, [LogDebug ''no handler for cmd %v''])))))"

subsection \<open>Reading from the connection\<close>

definition setReadDeadline :: "conn \<Rightarrow> error option \<times> conn" where
  "setReadDeadline cn =
     (case readDeadlineErrs cn of
        [] \<Rightarrow> (None, cn)
      | r # rs \<Rightarrow> (r, cn\<lparr>readDeadlineErrs := rs\<rparr>))"

text \<open>
  \<^verbatim>\<open>io.ReadFull\<close> fills the whole buffer or reports an error together with the
  number of bytes it did read.
\<close>

definition readFull :: "conn \<Rightarrow> nat \<Rightarrow> (bytes \<times> nat \<times> error option) \<times> conn" where
  "readFull cn n =
     (let avail = incoming cn in
      if n \<le> length avail
      then ((take n avail, n, None), cn\<lparr>incoming := drop n avail\<rparr>)
      else ((avail @ replicate (n - length avail) (CHR 0x00), length avail, Some (readErr cn)),
            cn\<lparr>incoming := []\<rparr>))"

subsection \<open>The frame writer\<close>

definition Send :: "engine \<Rightarrow> conn \<Rightarrow> client \<Rightarrow> bytes \<Rightarrow> error option \<times> action list" where
  "Send e cn c d =
     (case sendHandler e of
        Some f \<Rightarrow> (f c d, [])
      | None \<Rightarrow>
          (case writeDeadlineErr cn of
             Some err \<Rightarrow>
               (Some err, [SetWriteDeadline c, LogDebug ''%s Send SetReadDeadline Err: %v'', Stop c])
           | None \<Rightarrow>
               (case writeResult cn d of
                  (nwrite, Some err) \<Rightarrow>
                    (Some err, [SetWriteDeadline c, Write c d,
                                LogDebug ''%s Send Write Err: %v'', Stop c])
                | (nwrite, None) \<Rightarrow>
                    if nwrite \<noteq> int (length d)
                    then (Some ErrTcpClientWriteHalf,
                          [SetWriteDeadline c, Write c d, LogDebug ''%s Send Write Half'', Stop c])
                    else (None, [SetWriteDeadline c, Write c d]))))"

subsection \<open>The frame reader\<close>

text \<open>
  Modelled from the spec: \<^verbatim>\<open>Message.Decrypt\<close> is declared outside this file. The spec
  says that it consumes the raw header and body, that its failure produces no message, and
  that on success the message exposes the plaintext and the raw view is discarded.
\<close>

definition recvDecrypt ::
  "decls \<Rightarrow> client \<Rightarrow> bytes \<Rightarrow> action list \<Rightarrow> conn \<Rightarrow> message option \<times> action list \<times> conn" where
  "recvDecrypt P c raw tr cn =
     (case Decrypt P c raw of
        None \<Rightarrow> (None, tr @ [DecryptMsg c, LogDebug ''%s RecvMsg Decrypt Err: %v''], cn)
      | Some plain \<Rightarrow> (Some \<lparr>data = plain, rawData = []\<rparr>, tr @ [DecryptMsg c], cn))"

text \<open>
  \<open>dataLen\<close> is the Go \<^verbatim>\<open>int\<close> of an unsigned 32-bit length, and the length
  test adds the header length to it in \<^verbatim>\<open>int\<close>. With 64 bits the conversion keeps
  the value and the sum cannot overflow; with 32 bits a length from \<open>2 ^ 31\<close> on
  converts to a negative number, and the sum wraps around for the lengths just below.
\<close>

definition recvBody ::
  "decls \<Rightarrow> engine \<Rightarrow> client \<Rightarrow> bytes \<Rightarrow> int \<Rightarrow> action list \<Rightarrow> conn \<Rightarrow>
   message option \<times> action list \<times> conn" where
  "recvBody P e c hdr dataLen tr cn =
     (if goInt (intBits P) (dataLen + int (DEFAULT_MESSAGE_HEAD_LEN P)) > sockMaxPackLen e
      then (None, tr @ [LogDebug ''%s RecvMsg Read Body Err: Msg Len(%d) > MAXPACK_LEN(%d)''], cn)
      else
        (case setReadDeadline cn of
           (Some err, cn1) \<Rightarrow>
             (None, tr @ [SetReadDeadline c, LogDebug ''%s RecvMsg SetReadDeadline Err: %v.''], cn1)
         | (None, cn1) \<Rightarrow>
             (case readFull cn1 (nat dataLen) of
                ((body, readLen, err), cn2) \<Rightarrow>
                  (let tr2 = tr @ [SetReadDeadline c, MakeBody (nat dataLen),
                                   ReadFull c (nat dataLen)] in
                   if err \<noteq> None
                   then (None, tr2 @ [LogDebug ''%s RecvMsg Read Body Err: %v''], cn2)
                   else recvDecrypt P c (hdr @ body) tr2 cn2))))"

definition RecvMsg ::
  "decls \<Rightarrow> engine \<Rightarrow> conn \<Rightarrow> client \<Rightarrow> message option \<times> action list \<times> conn" where
  "RecvMsg P e cn c =
     (case recvHandler e of
        Some f \<Rightarrow> (case f c cn of (r, cn1) \<Rightarrow> (r, [], cn1))
      | None \<Rightarrow>
          (let H = DEFAULT_MESSAGE_HEAD_LEN P; tr = [MakeHead H, SetReadDeadline c] in
           case setReadDeadline cn of
             (Some err, cn1) \<Rightarrow>
               (None, tr @ [LogDebug ''%s RecvMsg SetReadDeadline Err: %v.''], cn1)
           | (None, cn1) \<Rightarrow>
               (case readFull cn1 H of
                  ((hdr, readLen, err), cn2) \<Rightarrow>
                    (let tr2 = tr @ [ReadFull c H] in
                     if err \<noteq> None \<or> readLen < H
                     then (None, tr2 @ [LogDebug ''%s RecvMsg Read Head Err: %v, readLen: %d.''], cn2)
                     else
                       (let dataLen = goInt (intBits P) (uint (BodyLen P hdr)) in
                        if dataLen > 0
                        then recvBody P e c hdr dataLen tr2 cn2
                        else recvDecrypt P c hdr tr2 cn2)))))"

subsection \<open>Concrete values for the examples\<close>

text \<open>
  An instance of the declarations: the reserved codes sit just above a ceiling of 24 bits,
  the header has 16 bytes, with the body length in its bytes 0 to 3, the command in its
  bytes 4 to 7 and the RPC sequence number from byte 8 on, little-endian; decryption is the
  identity; \<^verbatim>\<open>int\<close> has 64 bits. \<open>decls32\<close> is the same on a target whose
  \<^verbatim>\<open>int\<close> has 32 bits.
\<close>

definition le32 :: "bytes \<Rightarrow> nat \<Rightarrow> 32 word" where
  "le32 h i = word_of_nat (of_char (h ! i) + 256 * of_char (h ! (i + 1)) +
                65536 * of_char (h ! (i + 2)) + 16777216 * of_char (h ! (i + 3)))"

definition decls0 :: decls where
  "decls0 =
     \<lparr> intBits = 64,
       CmdPing = 0x1000000, CmdPing2 = 0x1000001, CmdSetReaIp = 0x1000002,
       CmdRpcMethod = 0x1000003, CmdRpcError = 0x1000004, CmdUserMax = 0xFFFFFF,
       DEFAULT_MESSAGE_HEAD_LEN = 16,
       Cmd = (\<lambda>h. le32 h 4),
       BodyLen = (\<lambda>h. le32 h 0),
       RpcSeq = (\<lambda>h. ucast (le32 h 8)),
       Decrypt = (\<lambda>c raw. Some raw) \<rparr>"

definition decls32 :: decls where
  "decls32 = decls0\<lparr>intBits := 32\<rparr>"

definition returns :: behaviour where
  "returns = (\<lambda>a. None)"

definition panics :: behaviour where
  "panics = (\<lambda>a. Some (UserFault ''boom''))"

definition zeros8 :: bytes where
  "zeros8 = [CHR 0x00, CHR 0x00, CHR 0x00, CHR 0x00, CHR 0x00, CHR 0x00, CHR 0x00, CHR 0x00]"

text \<open>A ping, a message of the user command 5, and RPC calls with sequence number 9.\<close>

definition pingMsg :: message where
  "pingMsg = \<lparr>data = [CHR 0x00, CHR 0x00, CHR 0x00, CHR 0x00,
                      CHR 0x00, CHR 0x00, CHR 0x00, CHR 0x01] @ zeros8, rawData = []\<rparr>"

definition userMsg :: message where
  "userMsg = \<lparr>data = [CHR 0x02, CHR 0x00, CHR 0x00, CHR 0x00,
                      CHR 0x05, CHR 0x00, CHR 0x00, CHR 0x00] @ zeros8 @ ''ok'', rawData = []\<rparr>"

definition rpcHead :: "char \<Rightarrow> bytes" where
  "rpcHead n = [n, CHR 0x00, CHR 0x00, CHR 0x00, CHR 0x03, CHR 0x00, CHR 0x00, CHR 0x01,
                CHR 0x09, CHR 0x00, CHR 0x00, CHR 0x00, CHR 0x00, CHR 0x00, CHR 0x00, CHR 0x00]"

definition echoMsg :: message where
  "echoMsg = \<lparr>data = rpcHead (CHR 0x07) @ ''hi'' @ ''echo'' @ [CHR 0x04], rawData = []\<rparr>"

definition badLenMsg :: message where
  "badLenMsg = \<lparr>data = rpcHead (CHR 0x03) @ ''hi'' @ [CHR 0xC8], rawData = []\<rparr>"

definition echoEngine :: engine where
  "echoEngine = snd (HandleRpcMethod decls0 ''echo'' 5 [] (NewTcpEngine 1024))"

definition userEngine :: engine where
  "userEngine = snd (Handle decls0 5 7 (NewTcpEngine 1024))"

definition rpcCmdEngine :: engine where
  "rpcCmdEngine = snd (HandleRpcCmd decls0 6 8 True (NewTcpEngine 1024))"

text \<open>A message of the command 6, and an engine with an asynchronous handler of \<open>echo\<close>.\<close>

definition rpcCmdMsg :: message where
  "rpcCmdMsg = \<lparr>data = [CHR 0x00, CHR 0x00, CHR 0x00, CHR 0x00,
                        CHR 0x06, CHR 0x00, CHR 0x00, CHR 0x00] @ zeros8, rawData = []\<rparr>"

definition asyncEchoEngine :: engine where
  "asyncEchoEngine =
     snd (HandleRpcMethod decls0 ''echo'' 5 [BoolArg True] (NewTcpEngine 1024))"

definition shortWriteConn :: conn where
  "shortWriteConn =
     \<lparr> incoming = [], readErr = EOF, readDeadlineErrs = [], writeDeadlineErr = None,
       writeResult = (\<lambda>d. (1, None)) \<rparr>"

text \<open>
  A connection on which a frame of 24 bytes arrives: a header that declares a body of 8
  bytes, and the body.
\<close>

definition frameConn :: conn where
  "frameConn =
     \<lparr> incoming = [CHR 0x08, CHR 0x00, CHR 0x00, CHR 0x00,
                   CHR 0x05, CHR 0x00, CHR 0x00, CHR 0x00] @ zeros8 @ ''12345678'',
       readErr = EOF,
       readDeadlineErrs = [],
       writeDeadlineErr = None,
       writeResult = (\<lambda>d. (int (length d), None)) \<rparr>"

text \<open>
  Two connections on which only a header arrives: one declares a body of \<open>2 ^ 31 - 16\<close>
  bytes, the other a body of \<open>2 ^ 31\<close> bytes.
\<close>

definition wrapConn :: conn where
  "wrapConn = frameConn\<lparr>incoming := [CHR 0xF0, CHR 0xFF, CHR 0xFF, CHR 0x7F,
                                       CHR 0x05, CHR 0x00, CHR 0x00, CHR 0x00] @ zeros8\<rparr>"

definition negativeConn :: conn where
  "negativeConn = frameConn\<lparr>incoming := [CHR 0x00, CHR 0x00, CHR 0x00, CHR 0x80,
                                           CHR 0x05, CHR 0x00, CHR 0x00, CHR 0x00] @ zeros8\<rparr>"

text \<open>
  A receive override that takes whatever has arrived as one message, and an engine with a
  maximum packet length of 20 that has it installed.
\<close>

definition readWholeFrame :: "client \<Rightarrow> conn \<Rightarrow> message option \<times> conn" where
  "readWholeFrame c cn = (Some \<lparr>data = incoming cn, rawData = []\<rparr>, cn\<lparr>incoming := []\<rparr>)"

definition overrideEngine :: engine where
  "overrideEngine = (NewTcpEngine 20)\<lparr>recvHandler := Some readWholeFrame\<rparr>"

section \<open>Registration\<close>

lemma Handle_ok_iff:
  "Handle P c h e = (None, ea) \<longleftrightarrow>
     c \<noteq> CmdPing P \<and> c \<noteq> CmdSetReaIp P \<and> c \<noteq> CmdRpcMethod P \<and> c \<noteq> CmdRpcError P \<and>
     \<not> c > CmdUserMax P \<and> handlers e c = None \<and>
     ea = e\<lparr>handlers := (handlers e)(c \<mapsto> UserHandler h)\<rparr>"
  by (auto simp: Handle_def split: option.splits)

lemma HandleRpcCmd_ok_iff:
  "HandleRpcCmd P c r a e = (None, ea) \<longleftrightarrow>
     c \<noteq> CmdPing P \<and> c \<noteq> CmdSetReaIp P \<and> c \<noteq> CmdRpcMethod P \<and> c \<noteq> CmdRpcError P \<and>
     \<not> c > CmdUserMax P \<and> handlers e c = None \<and>
     ea = e\<lparr>handlers := (handlers e)(c \<mapsto> (if a then RpcCmdAsync r else RpcCmdSync r))\<rparr>"
  by (auto simp: HandleRpcCmd_def split: option.splits)

lemma Handle_dup:
  "c \<noteq> CmdPing P \<Longrightarrow> c \<noteq> CmdSetReaIp P \<Longrightarrow> c \<noteq> CmdRpcMethod P \<Longrightarrow>
   c \<noteq> CmdRpcError P \<Longrightarrow> \<not> c > CmdUserMax P \<Longrightarrow> handlers e c = Some x \<Longrightarrow>
   Handle P c h e = (Some (HandlerExists c), e)"
  by (simp add: Handle_def)

lemma HandleRpcCmd_dup:
  "c \<noteq> CmdPing P \<Longrightarrow> c \<noteq> CmdSetReaIp P \<Longrightarrow> c \<noteq> CmdRpcMethod P \<Longrightarrow>
   c \<noteq> CmdRpcError P \<Longrightarrow> \<not> c > CmdUserMax P \<Longrightarrow> handlers e c = Some x \<Longrightarrow>
   HandleRpcCmd P c r a e = (Some (HandlerExists c), e)"
  by (simp add: HandleRpcCmd_def)

lemma HandleRpcMethod_ok:
  "HandleRpcMethod P m r args e = (None, ea) \<Longrightarrow>
     \<exists>t. rpcMethodHandlers ea = Some t \<and>
         t m = Some (if (case args of BoolArg a # _ \<Rightarrow> a | _ \<Rightarrow> False)
                     then RpcAsync r else RpcDirect r)"
  by (auto simp: HandleRpcMethod_def Let_def initRpcHandler_def rpcLookup_def
           split: option.splits if_splits)

lemma HandleRpcMethod_dup:
  "rpcMethodHandlers e = Some t \<Longrightarrow> t m = Some x \<Longrightarrow>
   HandleRpcMethod P m r args e = (Some (MethodExists m), e)"
  by (simp add: HandleRpcMethod_def Let_def initRpcHandler_def rpcLookup_def)

lemma Handle_accepts_ceiling:
  assumes "CmdUserMax P \<notin> {CmdPing P, CmdSetReaIp P, CmdRpcMethod P, CmdRpcError P}"
    and "handlers e (CmdUserMax P) = None"
  shows "Handle P (CmdUserMax P) h e =
           (None, e\<lparr>handlers := (handlers e)(CmdUserMax P \<mapsto> UserHandler h)\<rparr>)"
  using assms by (simp add: Handle_def)

lemma HandleRpcCmd_accepts_ceiling:
  assumes "CmdUserMax P \<notin> {CmdPing P, CmdSetReaIp P, CmdRpcMethod P, CmdRpcError P}"
    and "handlers e (CmdUserMax P) = None"
  shows "HandleRpcCmd P (CmdUserMax P) r a e =
           (None, e\<lparr>handlers := (handlers e)
                    (CmdUserMax P \<mapsto> (if a then RpcCmdAsync r else RpcCmdSync r))\<rparr>)"
  using assms by (simp add: HandleRpcCmd_def)

text \<open>
  C1, as amended. A command code strictly above \<^verbatim>\<open>CmdUserMax\<close>, or equal to one of the
  four reserved codes \<^verbatim>\<open>CmdPing\<close>, \<^verbatim>\<open>CmdSetReaIp\<close>, \<^verbatim>\<open>CmdRpcMethod\<close>,
  \<^verbatim>\<open>CmdRpcError\<close>, is refused by \<^verbatim>\<open>Handle\<close> and by \<^verbatim>\<open>HandleRpcCmd\<close>: each
  panics with one of the reserved-code faults and leaves the engine, and so the command
  mapping, as it was.
\<close>

theorem registration_rejects_reserved_and_above_ceiling:
  assumes "c > CmdUserMax P \<or>
           c \<in> {CmdPing P, CmdSetReaIp P, CmdRpcMethod P, CmdRpcError P}"
  shows "fst (Handle P c h e) \<in> Some ` {ErrorReservedCmdPing, ErrorReservedCmdSetRealip,
            ErrorReservedCmdRpcMethod, ErrorReservedCmdRpcError, ErrorReservedCmdInternal} \<and>
         snd (Handle P c h e) = e \<and>
         fst (HandleRpcCmd P c r a e) \<in> Some ` {ErrorReservedCmdPing, ErrorReservedCmdSetRealip,
            ErrorReservedCmdRpcMethod, ErrorReservedCmdRpcError, ErrorReservedCmdInternal} \<and>
         snd (HandleRpcCmd P c r a e) = e"
  using assms by (auto simp: Handle_def HandleRpcCmd_def)

theorem registration_rejects_reserved_and_above_ceiling_witness:
  "(0x2000000 :: cmd) > CmdUserMax decls0 \<and>
   Handle decls0 0x2000000 7 (NewTcpEngine 1024) =
     (Some ErrorReservedCmdInternal, NewTcpEngine 1024) \<and>
   HandleRpcCmd decls0 0x2000000 8 True (NewTcpEngine 1024) =
     (Some ErrorReservedCmdInternal, NewTcpEngine 1024)"
proof -
  have h: "(0x2000000 :: cmd) > CmdUserMax decls0 \<or>
           (0x2000000 :: cmd) \<in> {CmdPing decls0, CmdSetReaIp decls0, CmdRpcMethod decls0,
                                  CmdRpcError decls0}"
    by (simp add: decls0_def)
  have f: "fst (Handle decls0 0x2000000 7 (NewTcpEngine 1024)) = Some ErrorReservedCmdInternal"
    "fst (HandleRpcCmd decls0 0x2000000 8 True (NewTcpEngine 1024)) =
       Some ErrorReservedCmdInternal"
    by (simp_all add: Handle_def HandleRpcCmd_def decls0_def)
  from registration_rejects_reserved_and_above_ceiling
         [OF h, of 7 "NewTcpEngine 1024" 8 True]
  have "snd (Handle decls0 0x2000000 7 (NewTcpEngine 1024)) = NewTcpEngine 1024"
    and "snd (HandleRpcCmd decls0 0x2000000 8 True (NewTcpEngine 1024)) = NewTcpEngine 1024"
    by simp_all
  with f show ?thesis by (simp add: prod_eq_iff decls0_def)
qed

text \<open>
  C1 as it is written also covers the ceiling itself. The check of the source is
  \<^verbatim>\<open>cmd > CmdUserMax\<close>, so where the ceiling is not one of the reserved codes, a fresh
  engine accepts it from both operations and installs the handler.
\<close>

theorem registration_accepts_ceiling:
  "CmdUserMax decls0 = 0xFFFFFF \<and>
   fst (Handle decls0 0xFFFFFF 7 (NewTcpEngine 1024)) = None \<and>
   handlers (snd (Handle decls0 0xFFFFFF 7 (NewTcpEngine 1024))) 0xFFFFFF =
     Some (UserHandler 7) \<and>
   fst (HandleRpcCmd decls0 0xFFFFFF 8 False (NewTcpEngine 1024)) = None \<and>
   handlers (snd (HandleRpcCmd decls0 0xFFFFFF 8 False (NewTcpEngine 1024))) 0xFFFFFF =
     Some (RpcCmdSync 8)"
  by (simp add: Handle_def HandleRpcCmd_def decls0_def NewTcpEngine_def)

text \<open>
  C3. After a registration that succeeded, registering the same command code again, with
  \<^verbatim>\<open>Handle\<close> or with \<^verbatim>\<open>HandleRpcCmd\<close>, or the same RPC method name again with
  \<^verbatim>\<open>HandleRpcMethod\<close>, panics with the duplicate-registration fault, the engine is
  left as the first registration made it, and the table still holds the entry of the first
  registration.
\<close>

theorem second_registration_is_rejected:
  "(Handle P c h e = (None, ea) \<longrightarrow>
      Handle P c h' ea = (Some (HandlerExists c), ea) \<and>
      HandleRpcCmd P c r' a' ea = (Some (HandlerExists c), ea) \<and>
      handlers ea c = Some (UserHandler h)) \<and>
   (HandleRpcCmd P c r a e = (None, eb) \<longrightarrow>
      HandleRpcCmd P c r' a' eb = (Some (HandlerExists c), eb) \<and>
      Handle P c h' eb = (Some (HandlerExists c), eb) \<and>
      handlers eb c = Some (if a then RpcCmdAsync r else RpcCmdSync r)) \<and>
   (HandleRpcMethod P m r args e = (None, ec) \<longrightarrow>
      HandleRpcMethod P m r' args' ec = (Some (MethodExists m), ec) \<and>
      rpcLookup ec m = Some (if (case args of BoolArg b # _ \<Rightarrow> b | _ \<Rightarrow> False)
                             then RpcAsync r else RpcDirect r))"
proof (intro conjI impI)
  assume a: "Handle P c h e = (None, ea)"
  then show "Handle P c h' ea = (Some (HandlerExists c), ea)"
    by (auto simp: Handle_ok_iff intro!: Handle_dup)
  from a show "HandleRpcCmd P c r' a' ea = (Some (HandlerExists c), ea)"
    by (auto simp: Handle_ok_iff intro!: HandleRpcCmd_dup)
  from a show "handlers ea c = Some (UserHandler h)"
    by (auto simp: Handle_ok_iff)
next
  assume a: "HandleRpcCmd P c r a e = (None, eb)"
  then show "HandleRpcCmd P c r' a' eb = (Some (HandlerExists c), eb)"
    by (auto simp: HandleRpcCmd_ok_iff intro!: HandleRpcCmd_dup)
  from a show "Handle P c h' eb = (Some (HandlerExists c), eb)"
    by (auto simp: HandleRpcCmd_ok_iff intro!: Handle_dup)
  from a show "handlers eb c = Some (if a then RpcCmdAsync r else RpcCmdSync r)"
    by (auto simp: HandleRpcCmd_ok_iff)
next
  assume a: "HandleRpcMethod P m r args e = (None, ec)"
  from HandleRpcMethod_ok [OF a] obtain t where t: "rpcMethodHandlers ec = Some t"
    "t m = Some (if (case args of BoolArg a # _ \<Rightarrow> a | _ \<Rightarrow> False)
                 then RpcAsync r else RpcDirect r)"
    by blast
  then show "HandleRpcMethod P m r' args' ec = (Some (MethodExists m), ec)"
    by (rule HandleRpcMethod_dup)
  from t show "rpcLookup ec m = Some (if (case args of BoolArg b # _ \<Rightarrow> b | _ \<Rightarrow> False)
                                      then RpcAsync r else RpcDirect r)"
    by (simp add: rpcLookup_def)
qed

lemma Handle_userEngine: "Handle decls0 5 7 (NewTcpEngine 1024) = (None, userEngine)"
  by (simp add: userEngine_def Handle_def decls0_def NewTcpEngine_def)

lemma HandleRpcCmd_rpcCmdEngine:
  "HandleRpcCmd decls0 6 8 True (NewTcpEngine 1024) = (None, rpcCmdEngine)"
  by (simp add: rpcCmdEngine_def HandleRpcCmd_def decls0_def NewTcpEngine_def)

lemma HandleRpcMethod_echoEngine:
  "HandleRpcMethod decls0 ''echo'' 5 [] (NewTcpEngine 1024) = (None, echoEngine)"
  by (simp add: echoEngine_def HandleRpcMethod_def initRpcHandler_def rpcLookup_def
        NewTcpEngine_def Let_def)

theorem second_registration_is_rejected_witness:
  "Handle decls0 5 7 (NewTcpEngine 1024) = (None, userEngine) \<and>
   Handle decls0 5 9 userEngine = (Some (HandlerExists 5), userEngine) \<and>
   handlers userEngine 5 = Some (UserHandler 7) \<and>
   HandleRpcCmd decls0 6 8 True (NewTcpEngine 1024) = (None, rpcCmdEngine) \<and>
   HandleRpcCmd decls0 6 9 False rpcCmdEngine = (Some (HandlerExists 6), rpcCmdEngine) \<and>
   handlers rpcCmdEngine 6 = Some (RpcCmdAsync 8) \<and>
   HandleRpcMethod decls0 ''echo'' 5 [] (NewTcpEngine 1024) = (None, echoEngine) \<and>
   HandleRpcMethod decls0 ''echo'' 9 [BoolArg True] echoEngine =
     (Some (MethodExists ''echo''), echoEngine) \<and>
   rpcLookup echoEngine ''echo'' = Some (RpcDirect 5)"
  using second_registration_is_rejected
          [where P = decls0 and e = "NewTcpEngine 1024"
             and c = 5 and h = 7 and ea = userEngine and h' = 9
             and r = 5 and m = "''echo''" and args = "[]" and ec = echoEngine
             and r' = 9 and args' = "[BoolArg True]" and a = False
             and eb = "NewTcpEngine 1024" and a' = False]
        second_registration_is_rejected
          [where P = decls0 and e = "NewTcpEngine 1024"
             and c = 6 and r = 8 and a = True and eb = rpcCmdEngine and r' = 9 and a' = False
             and h = 7 and h' = 9 and ea = userEngine and m = "''echo''" and args = "[]"
             and ec = echoEngine and args' = "[]"]
        Handle_userEngine HandleRpcCmd_rpcCmdEngine HandleRpcMethod_echoEngine
  by simp

text \<open>
  C10. The two numeric registrations write one table: after a \<^verbatim>\<open>Handle\<close> that
  succeeded, \<^verbatim>\<open>HandleRpcCmd\<close> on the same code panics with the duplicate-registration
  fault, and after a \<^verbatim>\<open>HandleRpcCmd\<close> that succeeded, \<^verbatim>\<open>Handle\<close> on the same code
  does; in both cases the engine is left as the first registration made it.
\<close>

theorem duplicate_rejection_spans_both_operations:
  "(Handle P c h e = (None, ea) \<longrightarrow>
      HandleRpcCmd P c r a ea = (Some (HandlerExists c), ea)) \<and>
   (HandleRpcCmd P c r a e = (None, eb) \<longrightarrow>
      Handle P c h eb = (Some (HandlerExists c), eb))"
  by (auto simp: Handle_ok_iff HandleRpcCmd_ok_iff intro!: Handle_dup HandleRpcCmd_dup)

theorem duplicate_rejection_spans_both_operations_witness:
  "Handle decls0 5 7 (NewTcpEngine 1024) = (None, userEngine) \<and>
   HandleRpcCmd decls0 5 8 True userEngine = (Some (HandlerExists 5), userEngine) \<and>
   HandleRpcCmd decls0 6 8 True (NewTcpEngine 1024) = (None, rpcCmdEngine) \<and>
   Handle decls0 6 7 rpcCmdEngine = (Some (HandlerExists 6), rpcCmdEngine)"
  using duplicate_rejection_spans_both_operations
          [where P = decls0 and e = "NewTcpEngine 1024" and c = 5 and h = 7 and ea = userEngine
             and r = 8 and a = True and eb = userEngine]
        duplicate_rejection_spans_both_operations
          [where P = decls0 and e = "NewTcpEngine 1024" and c = 6 and h = 7 and ea = userEngine
             and r = 8 and a = True and eb = rpcCmdEngine]
        Handle_userEngine HandleRpcCmd_rpcCmdEngine
  by simp

section \<open>Dispatch\<close>

lemma wgCount_append [simp]: "wgCount (xs @ ys) = wgCount xs + wgCount ys"
  by (induction xs rule: wgCount.induct) auto

lemma callRpcEntry_wg [simp]: "wgCount (snd (callRpcEntry B h ctx)) = 0"
  by (auto simp: callRpcEntry_def split: rpc_entry.splits)

lemma callRpcEntry_no_Stop [simp]: "Stop c' \<notin> set (snd (callRpcEntry B h ctx))"
  by (auto simp: callRpcEntry_def split: rpc_entry.splits)

lemma onRpcMethod_wg [simp]: "wgCount (fst (snd (onRpcMethod P B e c m))) = 0"
  by (simp add: onRpcMethod_def Let_def case_prod_beta split: option.splits)

lemma onRpcMethod_no_Stop [simp]: "Stop c' \<notin> set (fst (snd (onRpcMethod P B e c m)))"
  by (simp add: onRpcMethod_def Let_def case_prod_beta split: option.splits)

lemma callEntry_wg [simp]: "wgCount (snd (callEntry P B e h c m)) = 0"
  by (cases h) (simp_all add: callEntry_def Let_def case_prod_beta)

lemma callEntry_no_Stop [simp]: "Stop c' \<notin> set (snd (callEntry P B e h c m))"
  by (cases h) (simp_all add: callEntry_def Let_def case_prod_beta)

lemma OnMessage_hit:
  assumes "running e" and "onMsgHandler e = None"
    and "Cmd P (data m) \<noteq> CmdPing P" and "Cmd P (data m) \<noteq> CmdPing2 P"
    and "handlers e (Cmd P (data m)) = Some h"
  shows "OnMessage P B e c m =
           (None, [WgAdd 1] @ snd (callEntry P B e h c m) @
                  HandlePanic (fst (callEntry P B e h c m)) @ [WgDone])"
  using assms by (simp add: OnMessage_def Let_def case_prod_beta)

lemma Cmd_pingMsg: "Cmd decls0 (data pingMsg) = CmdPing decls0"
  by (simp add: decls0_def pingMsg_def zeros8_def le32_def)

lemma Cmd_userMsg: "Cmd decls0 (data userMsg) = 5"
  by (simp add: decls0_def userMsg_def zeros8_def le32_def)

text \<open>
  C4. With the running flag false, \<^verbatim>\<open>OnMessage\<close> returns at once, whatever the message
  (a ping included), the tables and the override: it calls no handler and no override and
  sends nothing, so its trace is empty.
\<close>

theorem OnMessage_not_running:
  "\<not> running e \<Longrightarrow> OnMessage P B e c m = (None, [])"
  by (simp add: OnMessage_def)

theorem OnMessage_not_running_witness:
  "\<not> running (userEngine\<lparr>running := False, onMsgHandler := Some 3\<rparr>) \<and>
   Cmd decls0 (data pingMsg) = CmdPing decls0 \<and>
   OnMessage decls0 panics (userEngine\<lparr>running := False, onMsgHandler := Some 3\<rparr>) 1 pingMsg =
     (None, []) \<and>
   OnMessage decls0 panics (userEngine\<lparr>running := False, onMsgHandler := Some 3\<rparr>) 1 userMsg =
     (None, [])"
  using OnMessage_not_running
          [of "userEngine\<lparr>running := False, onMsgHandler := Some 3\<rparr>" decls0 panics 1 pingMsg]
        OnMessage_not_running
          [of "userEngine\<lparr>running := False, onMsgHandler := Some 3\<rparr>" decls0 panics 1 userMsg]
        Cmd_pingMsg
  by simp

text \<open>
  C7. With the running flag true and no dispatch override: a ping is answered with exactly
  one \<^verbatim>\<open>ping2Msg\<close> and the result does not depend on the command table; a ping
  acknowledgement is dropped with an empty trace, again whatever the table holds; any other
  command is looked up in the table, and a miss only logs. A hit runs the entry found
  between \<^verbatim>\<open>Add(1)\<close> and \<^verbatim>\<open>Done()\<close>. The two keepalive codes are different
  constants.
\<close>

theorem OnMessage_builtin_dispatch:
  assumes "running e" and "onMsgHandler e = None" and "CmdPing P \<noteq> CmdPing2 P"
  shows "(Cmd P (data m) = CmdPing P \<longrightarrow>
            (\<forall>hs. OnMessage P B (e\<lparr>handlers := hs\<rparr>) c m = (None, [SendMsg c ping2Msg]))) \<and>
         (Cmd P (data m) = CmdPing2 P \<longrightarrow>
            (\<forall>hs. OnMessage P B (e\<lparr>handlers := hs\<rparr>) c m = (None, []))) \<and>
         (Cmd P (data m) \<noteq> CmdPing P \<and> Cmd P (data m) \<noteq> CmdPing2 P \<longrightarrow>
            (case handlers e (Cmd P (data m)) of
               None \<Rightarrow> OnMessage P B e c m = (None, [LogDebug ''no handler for cmd %v''])
             | Some h \<Rightarrow>
                 OnMessage P B e c m =
                   (None, [WgAdd 1] @ snd (callEntry P B e h c m) @
                          HandlePanic (fst (callEntry P B e h c m)) @ [WgDone])))"
  using assms by (auto simp: OnMessage_def Let_def case_prod_beta split: option.splits)

theorem OnMessage_builtin_dispatch_witness:
  "running userEngine \<and> onMsgHandler userEngine = None \<and> CmdPing decls0 \<noteq> CmdPing2 decls0 \<and>
   Cmd decls0 (data pingMsg) = CmdPing decls0 \<and>
   OnMessage decls0 returns userEngine 1 pingMsg = (None, [SendMsg 1 ping2Msg]) \<and>
   OnMessage decls0 returns (NewTcpEngine 1024) 1 pingMsg = (None, [SendMsg 1 ping2Msg]) \<and>
   OnMessage decls0 returns (NewTcpEngine 1024) 1 userMsg =
     (None, [LogDebug ''no handler for cmd %v'']) \<and>
   OnMessage decls0 returns userEngine 1 userMsg =
     (None, [WgAdd 1, CallHandler 7 1 userMsg, WgDone])"
proof -
  have r: "running userEngine" "onMsgHandler userEngine = None"
    "running (NewTcpEngine 1024)" "onMsgHandler (NewTcpEngine 1024) = None"
    by (simp_all add: userEngine_def Handle_def decls0_def NewTcpEngine_def)
  have d: "CmdPing decls0 \<noteq> CmdPing2 decls0" by (simp add: decls0_def)
  have u: "Cmd decls0 (data userMsg) \<noteq> CmdPing decls0"
    "Cmd decls0 (data userMsg) \<noteq> CmdPing2 decls0"
    by (simp_all add: Cmd_userMsg) (simp_all add: decls0_def)
  have t: "handlers userEngine 5 = Some (UserHandler 7)" "handlers (NewTcpEngine 1024) 5 = None"
    "userEngine\<lparr>handlers := handlers userEngine\<rparr> = userEngine"
    "userEngine\<lparr>handlers := Map.empty\<rparr> = NewTcpEngine 1024"
    by (simp_all add: userEngine_def Handle_def decls0_def NewTcpEngine_def)
  have k: "callEntry decls0 returns userEngine (UserHandler 7) 1 userMsg =
             (None, [CallHandler 7 1 userMsg])"
    by (simp add: callEntry_def returns_def)
  from OnMessage_builtin_dispatch [OF r(1,2) d, of pingMsg returns 1] Cmd_pingMsg
  have "\<forall>hs. OnMessage decls0 returns (userEngine\<lparr>handlers := hs\<rparr>) 1 pingMsg =
              (None, [SendMsg 1 ping2Msg])"
    by simp
  then have p: "OnMessage decls0 returns (userEngine\<lparr>handlers := handlers userEngine\<rparr>) 1 pingMsg =
                  (None, [SendMsg 1 ping2Msg])"
    "OnMessage decls0 returns (userEngine\<lparr>handlers := Map.empty\<rparr>) 1 pingMsg =
                  (None, [SendMsg 1 ping2Msg])"
    by blast+
  from OnMessage_builtin_dispatch [OF r(3,4) d, of userMsg returns 1] u t
  have m: "OnMessage decls0 returns (NewTcpEngine 1024) 1 userMsg =
             (None, [LogDebug ''no handler for cmd %v''])"
    by (simp add: Cmd_userMsg)
  from OnMessage_builtin_dispatch [OF r(1,2) d, of userMsg returns 1] u t k
  have "OnMessage decls0 returns userEngine 1 userMsg =
             (None, [WgAdd 1, CallHandler 7 1 userMsg, WgDone])"
    by (simp add: Cmd_userMsg HandlePanic_def)
  with r d p m t show ?thesis by (simp add: Cmd_pingMsg)
qed

lemma Cmd_rpcCmdMsg: "Cmd decls0 (data rpcCmdMsg) = 6"
  by (simp add: decls0_def rpcCmdMsg_def zeros8_def le32_def)

lemma Cmd_echoMsg: "Cmd decls0 (data echoMsg) = CmdRpcMethod decls0"
  by (simp add: decls0_def echoMsg_def rpcHead_def le32_def)

text \<open>
  C9, as amended. When \<^verbatim>\<open>OnMessage\<close> dispatches a message to the entry registered
  for its command (running, no override, not a keepalive code), it returns normally, its
  trace starts with \<^verbatim>\<open>Add(1)\<close>, ends with \<^verbatim>\<open>Done()\<close>, leaves the counter where it
  was and never stops the client. Between the two:
  \<^item> a handler registered by \<^verbatim>\<open>Handle\<close>, or by \<^verbatim>\<open>HandleRpcCmd\<close> without the
    asynchronous flag, is called, and a panic it raises is recovered before
    \<^verbatim>\<open>Done()\<close>;
  \<^item> the entry of the reserved RPC command runs the RPC sub-dispatcher, and a panic that
    leaves it is recovered before \<^verbatim>\<open>Done()\<close>;
  \<^item> a handler registered by \<^verbatim>\<open>HandleRpcCmd\<close> with the asynchronous flag is only
    handed to \<^verbatim>\<open>util.Go\<close>: its body runs outside the bracket, and nothing it raises
    is recovered here.
\<close>

theorem OnMessage_dispatch_is_counted_and_isolated:
  assumes "running e" and "onMsgHandler e = None"
    and "Cmd P (data m) \<noteq> CmdPing P" and "Cmd P (data m) \<noteq> CmdPing2 P"
    and "handlers e (Cmd P (data m)) = Some h"
  shows "OnMessage P B e c m =
           (case h of
              UserHandler f \<Rightarrow>
                (None, [WgAdd 1, CallHandler f c m] @
                       (case B (CallHandler f c m) of None \<Rightarrow> [] | Some x \<Rightarrow> [Recovered x]) @
                       [WgDone])
            | RpcCmdSync f \<Rightarrow>
                (None, [WgAdd 1, CallRpc f \<lparr>rpcMethod = [], client = c, message = m\<rparr>] @
                       (case B (CallRpc f \<lparr>rpcMethod = [], client = c, message = m\<rparr>) of
                          None \<Rightarrow> [] | Some x \<Rightarrow> [Recovered x]) @
                       [WgDone])
            | RpcCmdAsync f \<Rightarrow>
                (None, [WgAdd 1, Go (CallRpc f \<lparr>rpcMethod = [], client = c, message = m\<rparr>),
                        WgDone])
            | BoundOnRpcMethod \<Rightarrow>
                (None, [WgAdd 1] @ fst (snd (onRpcMethod P B e c m)) @
                       (case fst (onRpcMethod P B e c m) of
                          None \<Rightarrow> [] | Some x \<Rightarrow> [Recovered x]) @
                       [WgDone])) \<and>
         hd (snd (OnMessage P B e c m)) = WgAdd 1 \<and>
         last (snd (OnMessage P B e c m)) = WgDone \<and>
         wgCount (snd (OnMessage P B e c m)) = 0 \<and>
         (\<forall>c'. Stop c' \<notin> set (snd (OnMessage P B e c m)))"
proof -
  have tr: "OnMessage P B e c m =
           (case h of
              UserHandler f \<Rightarrow>
                (None, [WgAdd 1, CallHandler f c m] @
                       (case B (CallHandler f c m) of None \<Rightarrow> [] | Some x \<Rightarrow> [Recovered x]) @
                       [WgDone])
            | RpcCmdSync f \<Rightarrow>
                (None, [WgAdd 1, CallRpc f \<lparr>rpcMethod = [], client = c, message = m\<rparr>] @
                       (case B (CallRpc f \<lparr>rpcMethod = [], client = c, message = m\<rparr>) of
                          None \<Rightarrow> [] | Some x \<Rightarrow> [Recovered x]) @
                       [WgDone])
            | RpcCmdAsync f \<Rightarrow>
                (None, [WgAdd 1, Go (CallRpc f \<lparr>rpcMethod = [], client = c, message = m\<rparr>),
                        WgDone])
            | BoundOnRpcMethod \<Rightarrow>
                (None, [WgAdd 1] @ fst (snd (onRpcMethod P B e c m)) @
                       (case fst (onRpcMethod P B e c m) of
                          None \<Rightarrow> [] | Some x \<Rightarrow> [Recovered x]) @
                       [WgDone]))"
    by (cases h)
       (simp_all add: OnMessage_hit [OF assms] callEntry_def HandlePanic_def Let_def
          case_prod_beta)
  have rest: "hd (snd (OnMessage P B e c m)) = WgAdd 1"
    "last (snd (OnMessage P B e c m)) = WgDone"
    "wgCount (snd (OnMessage P B e c m)) = 0"
    "\<forall>c'. Stop c' \<notin> set (snd (OnMessage P B e c m))"
    by (auto simp: OnMessage_hit [OF assms] HandlePanic_def split: option.splits)
  from tr rest show ?thesis by blast
qed

theorem OnMessage_dispatch_is_counted_and_isolated_witness:
  "running userEngine \<and> onMsgHandler userEngine = None \<and>
   Cmd decls0 (data userMsg) \<noteq> CmdPing decls0 \<and> Cmd decls0 (data userMsg) \<noteq> CmdPing2 decls0 \<and>
   handlers userEngine (Cmd decls0 (data userMsg)) = Some (UserHandler 7) \<and>
   OnMessage decls0 panics userEngine 1 userMsg =
     (None, [WgAdd 1, CallHandler 7 1 userMsg, Recovered (UserFault ''boom''), WgDone]) \<and>
   wgCount (snd (OnMessage decls0 panics userEngine 1 userMsg)) = 0 \<and>
   handlers echoEngine (Cmd decls0 (data echoMsg)) = Some BoundOnRpcMethod \<and>
   OnMessage decls0 panics echoEngine 1 echoMsg =
     (None,
      [WgAdd 1,
       CallRpc 5 \<lparr>rpcMethod = ''echo'', client = 1,
                  message = \<lparr>data = rpcHead (CHR 0x07) @ ''hi'', rawData = []\<rparr>\<rparr>,
       Recovered (UserFault ''boom''), WgDone])"
proof -
  have r: "running userEngine" "onMsgHandler userEngine = None"
    by (simp_all add: userEngine_def Handle_def decls0_def NewTcpEngine_def)
  have u: "Cmd decls0 (data userMsg) \<noteq> CmdPing decls0"
    "Cmd decls0 (data userMsg) \<noteq> CmdPing2 decls0"
    by (simp_all add: Cmd_userMsg) (simp_all add: decls0_def)
  have t: "handlers userEngine (Cmd decls0 (data userMsg)) = Some (UserHandler 7)"
    unfolding Cmd_userMsg by (simp add: userEngine_def Handle_def decls0_def NewTcpEngine_def)
  have k: "panics (CallHandler 7 1 userMsg) = Some (UserFault ''boom'')"
    by (simp add: panics_def)
  from OnMessage_dispatch_is_counted_and_isolated [OF r u t, of panics 1] k
  have a: "OnMessage decls0 panics userEngine 1 userMsg =
     (None, [WgAdd 1, CallHandler 7 1 userMsg, Recovered (UserFault ''boom''), WgDone])"
    "wgCount (snd (OnMessage decls0 panics userEngine 1 userMsg)) = 0"
    by simp_all
  have r': "running echoEngine" "onMsgHandler echoEngine = None"
    by (simp_all add: echoEngine_def HandleRpcMethod_def initRpcHandler_def rpcLookup_def
          NewTcpEngine_def Let_def)
  have u': "Cmd decls0 (data echoMsg) \<noteq> CmdPing decls0"
    "Cmd decls0 (data echoMsg) \<noteq> CmdPing2 decls0"
    by (simp_all add: Cmd_echoMsg) (simp_all add: decls0_def)
  have t': "handlers echoEngine (Cmd decls0 (data echoMsg)) = Some BoundOnRpcMethod"
    unfolding Cmd_echoMsg
    by (simp add: echoEngine_def HandleRpcMethod_def initRpcHandler_def rpcLookup_def
          NewTcpEngine_def Let_def decls0_def)
  have o: "onRpcMethod decls0 panics echoEngine 1 echoMsg =
             (Some (UserFault ''boom''),
              [CallRpc 5 \<lparr>rpcMethod = ''echo'', client = 1,
                          message = \<lparr>data = rpcHead (CHR 0x07) @ ''hi'', rawData = []\<rparr>\<rparr>],
              \<lparr>data = rpcHead (CHR 0x07) @ ''hi'', rawData = []\<rparr>)"
    by (simp add: onRpcMethod_def Body_def echoMsg_def rpcHead_def decls0_def Let_def
          echoEngine_def HandleRpcMethod_def initRpcHandler_def rpcLookup_def NewTcpEngine_def
          callRpcEntry_def panics_def)
  from OnMessage_dispatch_is_counted_and_isolated [OF r' u' t', of panics 1] o
  have b: "OnMessage decls0 panics echoEngine 1 echoMsg =
     (None,
      [WgAdd 1,
       CallRpc 5 \<lparr>rpcMethod = ''echo'', client = 1,
                  message = \<lparr>data = rpcHead (CHR 0x07) @ ''hi'', rawData = []\<rparr>\<rparr>,
       Recovered (UserFault ''boom''), WgDone])"
    by simp
  from r u t a t' b show ?thesis by simp
qed

text \<open>
  C9 as it is written covers every registered command handler. For the handler that
  \<^verbatim>\<open>HandleRpcCmd\<close> registered with the asynchronous flag under the command 6, and that
  panics when it is called, the trace of \<^verbatim>\<open>OnMessage\<close> holds the hand-over to
  \<^verbatim>\<open>util.Go\<close> between \<^verbatim>\<open>Add(1)\<close> and \<^verbatim>\<open>Done()\<close> and nothing else: the call of
  the handler is not in the bracket, so the counter is back before the handler completes,
  and its panic is not recovered by this dispatch.
\<close>

theorem OnMessage_async_handler_runs_outside_bracket:
  "running rpcCmdEngine \<and> onMsgHandler rpcCmdEngine = None \<and>
   handlers rpcCmdEngine (Cmd decls0 (data rpcCmdMsg)) = Some (RpcCmdAsync 8) \<and>
   panics (CallRpc 8 \<lparr>rpcMethod = [], client = 1, message = rpcCmdMsg\<rparr>) =
     Some (UserFault ''boom'') \<and>
   OnMessage decls0 panics rpcCmdEngine 1 rpcCmdMsg =
     (None, [WgAdd 1, Go (CallRpc 8 \<lparr>rpcMethod = [], client = 1, message = rpcCmdMsg\<rparr>),
             WgDone]) \<and>
   CallRpc 8 \<lparr>rpcMethod = [], client = 1, message = rpcCmdMsg\<rparr>
     \<notin> set (snd (OnMessage decls0 panics rpcCmdEngine 1 rpcCmdMsg)) \<and>
   Recovered (UserFault ''boom'') \<notin> set (snd (OnMessage decls0 panics rpcCmdEngine 1 rpcCmdMsg))"
proof -
  have r: "running rpcCmdEngine" "onMsgHandler rpcCmdEngine = None"
    "handlers rpcCmdEngine 6 = Some (RpcCmdAsync 8)"
    by (simp_all add: rpcCmdEngine_def HandleRpcCmd_def decls0_def NewTcpEngine_def)
  have u: "(6 :: cmd) \<noteq> CmdPing decls0" "(6 :: cmd) \<noteq> CmdPing2 decls0"
    by (simp_all add: decls0_def)
  have o: "OnMessage decls0 panics rpcCmdEngine 1 rpcCmdMsg =
     (None, [WgAdd 1, Go (CallRpc 8 \<lparr>rpcMethod = [], client = 1, message = rpcCmdMsg\<rparr>),
             WgDone])"
    using r u by (simp add: OnMessage_def Cmd_rpcCmdMsg callEntry_def HandlePanic_def Let_def)
  have p: "panics (CallRpc 8 \<lparr>rpcMethod = [], client = 1, message = rpcCmdMsg\<rparr>) =
             Some (UserFault ''boom'')"
    by (simp add: panics_def)
  show ?thesis
    using r p o by (simp add: Cmd_rpcCmdMsg)
qed

section \<open>The frame writer\<close>

text \<open>
  C8. With no send override: when \<^verbatim>\<open>SetWriteDeadline\<close> fails, or \<^verbatim>\<open>Write\<close>
  returns an error, or \<^verbatim>\<open>Write\<close> transfers fewer bytes than the buffer holds,
  \<^verbatim>\<open>Send\<close> returns an error (the one of the connection, or
  \<^verbatim>\<open>ErrTcpClientWriteHalf\<close> for the short write), its last action is \<^verbatim>\<open>Stop\<close> on the client, and it
  has called \<^verbatim>\<open>Write\<close> at most once. When the deadline is set and \<^verbatim>\<open>Write\<close>
  transfers the whole buffer without error, \<^verbatim>\<open>Send\<close> returns nil after the deadline and
  the one write, and does not stop the client.
\<close>

theorem Send_failure_stops_client:
  assumes "sendHandler e = None"
  shows "(writeDeadlineErr cn \<noteq> None \<or> snd (writeResult cn d) \<noteq> None \<or>
          fst (writeResult cn d) < int (length d) \<longrightarrow>
            fst (Send e cn c d) \<noteq> None \<and>
            fst (Send e cn c d) =
              (if writeDeadlineErr cn \<noteq> None then writeDeadlineErr cn
               else if snd (writeResult cn d) \<noteq> None then snd (writeResult cn d)
               else Some ErrTcpClientWriteHalf) \<and>
            last (snd (Send e cn c d)) = Stop c \<and>
            length (filter (\<lambda>a. case a of Write _ _ \<Rightarrow> True | _ \<Rightarrow> False)
                      (snd (Send e cn c d))) \<le> 1) \<and>
         (writeDeadlineErr cn = None \<and> writeResult cn d = (int (length d), None) \<longrightarrow>
            Send e cn c d = (None, [SetWriteDeadline c, Write c d]) \<and>
            Stop c \<notin> set (snd (Send e cn c d)))"
  using assms by (auto simp: Send_def split: prod.splits option.splits)

theorem Send_failure_stops_client_witness:
  "sendHandler (NewTcpEngine 1024) = None \<and>
   fst (writeResult shortWriteConn ''hello'') < int (length ''hello'') \<and>
   Send (NewTcpEngine 1024) shortWriteConn 1 ''hello'' =
     (Some ErrTcpClientWriteHalf,
      [SetWriteDeadline 1, Write 1 ''hello'', LogDebug ''%s Send Write Half'', Stop 1]) \<and>
   writeDeadlineErr frameConn = None \<and>
   writeResult frameConn ''hello'' = (int (length ''hello''), None) \<and>
   Send (NewTcpEngine 1024) frameConn 1 ''hello'' =
     (None, [SetWriteDeadline 1, Write 1 ''hello''])"
proof -
  have n: "sendHandler (NewTcpEngine 1024) = None" by (simp add: NewTcpEngine_def)
  have s: "fst (writeResult shortWriteConn ''hello'') < int (length ''hello'')"
    by (simp add: shortWriteConn_def)
  have f: "writeDeadlineErr frameConn = None"
    "writeResult frameConn ''hello'' = (int (length ''hello''), None)"
    by (simp_all add: frameConn_def)
  have v: "Send (NewTcpEngine 1024) shortWriteConn 1 ''hello'' =
     (Some ErrTcpClientWriteHalf,
      [SetWriteDeadline 1, Write 1 ''hello'', LogDebug ''%s Send Write Half'', Stop 1])"
    by (simp add: Send_def NewTcpEngine_def shortWriteConn_def)
  from Send_failure_stops_client [OF n, of frameConn "''hello''" 1] f
  have "Send (NewTcpEngine 1024) frameConn 1 ''hello'' =
     (None, [SetWriteDeadline 1, Write 1 ''hello''])"
    by simp
  with n s f v show ?thesis by simp
qed

section \<open>The frame reader\<close>

lemma goInt_id:
  assumes "0 \<le> x" and "x < 2 ^ (w - 1)" and "0 < w"
  shows "goInt w x = x"
proof -
  from assms(3) obtain v where w: "w = Suc v" by (cases w) auto
  have "(x + 2 ^ v) mod 2 ^ Suc v = x + 2 ^ v"
    using assms(1,2) by (simp add: w)
  then show ?thesis by (simp add: goInt_def w)
qed

lemma setReadDeadline_incoming [simp]: "incoming (snd (setReadDeadline cn)) = incoming cn"
  by (simp add: setReadDeadline_def split: list.splits)

lemma recvBody_oversize:
  "goInt (intBits P) (dataLen + int (DEFAULT_MESSAGE_HEAD_LEN P)) > sockMaxPackLen e \<Longrightarrow>
   recvBody P e c hdr dataLen tr cn =
     (None, tr @ [LogDebug ''%s RecvMsg Read Body Err: Msg Len(%d) > MAXPACK_LEN(%d)''], cn)"
  by (simp add: recvBody_def)

lemma RecvMsg_oversize_cases:
  assumes "recvHandler e = None"
    and "DEFAULT_MESSAGE_HEAD_LEN P \<le> length (incoming cn)"
    and "0 < uint (BodyLen P (take (DEFAULT_MESSAGE_HEAD_LEN P) (incoming cn)))"
    and "uint (BodyLen P (take (DEFAULT_MESSAGE_HEAD_LEN P) (incoming cn))) +
           int (DEFAULT_MESSAGE_HEAD_LEN P) > sockMaxPackLen e"
    and "uint (BodyLen P (take (DEFAULT_MESSAGE_HEAD_LEN P) (incoming cn))) +
           int (DEFAULT_MESSAGE_HEAD_LEN P) < 2 ^ (intBits P - 1)"
  shows "fst (RecvMsg P e cn c) = None \<and>
         fst (snd (RecvMsg P e cn c)) \<in>
           {[MakeHead (DEFAULT_MESSAGE_HEAD_LEN P), SetReadDeadline c,
             LogDebug ''%s RecvMsg SetReadDeadline Err: %v.''],
            [MakeHead (DEFAULT_MESSAGE_HEAD_LEN P), SetReadDeadline c,
             ReadFull c (DEFAULT_MESSAGE_HEAD_LEN P),
             LogDebug ''%s RecvMsg Read Body Err: Msg Len(%d) > MAXPACK_LEN(%d)'']}"
proof -
  let ?d = "uint (BodyLen P (take (DEFAULT_MESSAGE_HEAD_LEN P) (incoming cn)))"
  let ?H = "int (DEFAULT_MESSAGE_HEAD_LEN P)"
  have w: "0 < intBits P"
  proof (rule ccontr)
    assume "\<not> 0 < intBits P"
    then have "intBits P = 0" by simp
    with assms(3,5) show False by simp
  qed
  have d: "goInt (intBits P) ?d = ?d"
    using assms(3,5) w by (intro goInt_id) simp_all
  have s: "goInt (intBits P) (?d + ?H) = ?d + ?H"
    using assms(3,5) w by (intro goInt_id) simp_all
  show ?thesis
  proof (cases "setReadDeadline cn")
    case (Pair r cn1)
    then have i: "incoming cn1 = incoming cn"
      using setReadDeadline_incoming [of cn] by simp
    show ?thesis
    proof (cases r)
      case (Some err)
      with Pair assms(1) show ?thesis by (simp add: RecvMsg_def Let_def)
    next
      case None
      with Pair assms(1,2,3,4) i d s show ?thesis
        by (simp add: RecvMsg_def Let_def readFull_def recvBody_oversize)
    qed
  qed
qed

text \<open>
  C2, as amended. With no receive override installed: when the header that arrives
  declares a body length \<open>d > 0\<close> with \<open>d\<close> plus the header length above
  \<^verbatim>\<open>sockMaxPackLen\<close>, and that sum is a value of Go's \<^verbatim>\<open>int\<close> (it always is
  where \<^verbatim>\<open>int\<close> has 64 bits), \<^verbatim>\<open>RecvMsg\<close> returns nil and never allocates a body
  buffer, of that size or of any other.
\<close>

theorem RecvMsg_rejects_oversize_frame:
  assumes "recvHandler e = None"
    and "DEFAULT_MESSAGE_HEAD_LEN P \<le> length (incoming cn)"
    and "0 < uint (BodyLen P (take (DEFAULT_MESSAGE_HEAD_LEN P) (incoming cn)))"
    and "uint (BodyLen P (take (DEFAULT_MESSAGE_HEAD_LEN P) (incoming cn))) +
           int (DEFAULT_MESSAGE_HEAD_LEN P) > sockMaxPackLen e"
    and "uint (BodyLen P (take (DEFAULT_MESSAGE_HEAD_LEN P) (incoming cn))) +
           int (DEFAULT_MESSAGE_HEAD_LEN P) < 2 ^ (intBits P - 1)"
  shows "fst (RecvMsg P e cn c) = None \<and>
         (\<forall>n. MakeBody n \<notin> set (fst (snd (RecvMsg P e cn c))))"
  using RecvMsg_oversize_cases [OF assms, of c] by auto

theorem RecvMsg_rejects_oversize_frame_witness:
  "recvHandler (NewTcpEngine 20) = None \<and>
   DEFAULT_MESSAGE_HEAD_LEN decls0 \<le> length (incoming frameConn) \<and>
   uint (BodyLen decls0 (take (DEFAULT_MESSAGE_HEAD_LEN decls0) (incoming frameConn))) = 8 \<and>
   8 + int (DEFAULT_MESSAGE_HEAD_LEN decls0) > sockMaxPackLen (NewTcpEngine 20) \<and>
   8 + int (DEFAULT_MESSAGE_HEAD_LEN decls0) < 2 ^ (intBits decls0 - 1) \<and>
   fst (RecvMsg decls0 (NewTcpEngine 20) frameConn 1) = None \<and>
   MakeBody 8 \<notin> set (fst (snd (RecvMsg decls0 (NewTcpEngine 20) frameConn 1)))"
proof -
  have a: "recvHandler (NewTcpEngine 20) = None" by (simp add: NewTcpEngine_def)
  have b: "DEFAULT_MESSAGE_HEAD_LEN decls0 \<le> length (incoming frameConn)"
    by (simp add: decls0_def frameConn_def zeros8_def)
  have d: "uint (BodyLen decls0 (take (DEFAULT_MESSAGE_HEAD_LEN decls0) (incoming frameConn)))
             = 8"
    by (simp add: decls0_def frameConn_def zeros8_def le32_def)
  have g: "8 + int (DEFAULT_MESSAGE_HEAD_LEN decls0) > sockMaxPackLen (NewTcpEngine 20)"
    by (simp add: decls0_def NewTcpEngine_def)
  have r: "8 + int (DEFAULT_MESSAGE_HEAD_LEN decls0) < 2 ^ (intBits decls0 - 1)"
    by (simp add: decls0_def)
  have "0 < uint (BodyLen decls0 (take (DEFAULT_MESSAGE_HEAD_LEN decls0) (incoming frameConn)))"
    and "uint (BodyLen decls0 (take (DEFAULT_MESSAGE_HEAD_LEN decls0) (incoming frameConn))) +
           int (DEFAULT_MESSAGE_HEAD_LEN decls0) > sockMaxPackLen (NewTcpEngine 20)"
    and "uint (BodyLen decls0 (take (DEFAULT_MESSAGE_HEAD_LEN decls0) (incoming frameConn))) +
           int (DEFAULT_MESSAGE_HEAD_LEN decls0) < 2 ^ (intBits decls0 - 1)"
    using g r by (simp_all only: d)
  from RecvMsg_rejects_oversize_frame [OF a b this, of 1]
  have "fst (RecvMsg decls0 (NewTcpEngine 20) frameConn 1) = None"
    and "MakeBody 8 \<notin> set (fst (snd (RecvMsg decls0 (NewTcpEngine 20) frameConn 1)))"
    by blast+
  with a b d g r show ?thesis by simp
qed

text \<open>
  C2 as it is written speaks of every received frame. A receive override replaces the
  whole reader, the length check included: with a maximum packet length of 20, the frame of
  24 bytes whose header declares 8 bytes of body is delivered as a message by
  \<^verbatim>\<open>RecvMsg\<close> of an engine whose override reads it.
\<close>

theorem RecvMsg_override_skips_length_check:
  "uint (BodyLen decls0 (take (DEFAULT_MESSAGE_HEAD_LEN decls0) (incoming frameConn))) = 8 \<and>
   8 + int (DEFAULT_MESSAGE_HEAD_LEN decls0) > sockMaxPackLen overrideEngine \<and>
   fst (RecvMsg decls0 overrideEngine frameConn 1) =
     Some \<lparr>data = incoming frameConn, rawData = []\<rparr> \<and>
   length (incoming frameConn) = 24"
  by (simp add: RecvMsg_def overrideEngine_def readWholeFrame_def NewTcpEngine_def decls0_def
        frameConn_def zeros8_def le32_def)

text \<open>
  Where the sum is a value of \<^verbatim>\<open>int\<close>: always with 64 bits and a header length that
  is itself a 32-bit value.
\<close>

lemma int64_holds_frame_length:
  assumes "intBits P = 64" and "int H < 2 ^ 32"
  shows "uint (x :: 32 word) + int H < 2 ^ (intBits P - 1)"
proof -
  have "uint x < 2 ^ 32" using uint_bounded [of x] by simp
  with assms show ?thesis by simp
qed

text \<open>
  What is left out of C2 as amended, with an \<^verbatim>\<open>int\<close> of 32 bits and no override. A
  declared length of \<open>2 ^ 31 - 16\<close> passes the length test against a maximum of 20,
  because the sum with the header length wraps around to a negative number, and the body
  buffer is allocated. A declared length of \<open>2 ^ 31\<close> converts to a negative number, no
  body is read, and the header alone is delivered as a message.
\<close>

lemma RecvMsg_int32_sum_wraps:
  "uint (BodyLen decls32 (take (DEFAULT_MESSAGE_HEAD_LEN decls32) (incoming wrapConn))) =
     2147483632 \<and>
   goInt 32 (2147483632 + 16) = - 2147483648 \<and>
   RecvMsg decls32 (NewTcpEngine 20) wrapConn 1 =
     (None,
      [MakeHead 16, SetReadDeadline 1, ReadFull 1 16, SetReadDeadline 1,
       MakeBody 2147483632, ReadFull 1 2147483632,
       LogDebug ''%s RecvMsg Read Body Err: %v''],
      wrapConn\<lparr>incoming := []\<rparr>)"
  by (simp add: RecvMsg_def recvBody_def decls32_def decls0_def wrapConn_def frameConn_def
        NewTcpEngine_def setReadDeadline_def readFull_def Let_def le32_def zeros8_def goInt_def)

lemma RecvMsg_int32_negative_length:
  "uint (BodyLen decls32 (take (DEFAULT_MESSAGE_HEAD_LEN decls32) (incoming negativeConn))) =
     2147483648 \<and>
   goInt 32 2147483648 = - 2147483648 \<and>
   fst (RecvMsg decls32 (NewTcpEngine 20) negativeConn 1) =
     Some \<lparr>data = incoming negativeConn, rawData = []\<rparr>"
  by (simp add: RecvMsg_def recvDecrypt_def decls32_def decls0_def negativeConn_def
        frameConn_def NewTcpEngine_def setReadDeadline_def readFull_def Let_def le32_def
        zeros8_def goInt_def)

text \<open>The reader does deliver a frame that fits: the bound does not reject everything.\<close>

lemma RecvMsg_delivers_small_frame:
  "RecvMsg decls0 (NewTcpEngine 1024) frameConn 1 =
     (Some \<lparr>data = incoming frameConn, rawData = []\<rparr>,
      [MakeHead 16, SetReadDeadline 1, ReadFull 1 16, SetReadDeadline 1, MakeBody 8,
       ReadFull 1 8, DecryptMsg 1],
      frameConn\<lparr>incoming := []\<rparr>)"
  by (simp add: RecvMsg_def recvBody_def recvDecrypt_def decls0_def frameConn_def
        NewTcpEngine_def setReadDeadline_def readFull_def Let_def le32_def zeros8_def goInt_def)

section \<open>The RPC sub-dispatcher\<close>

lemma slice_name:
  assumes "L \<le> length d - 1"
  shows "drop (length d - 1 - L) (take (length d - 1) d) = take L (drop (length d - 1 - L) d)"
proof -
  from assms have "length d - 1 - (length d - 1 - L) = L" by arith
  then show ?thesis by (simp add: drop_take)
qed

lemma Body_trim:
  assumes "Suc L \<le> length (Body P m)"
  shows "Body P (m\<lparr>data := take (length (data m) - 1 - L) (data m)\<rparr>) =
         take (length (Body P m) - Suc L) (Body P m)"
  using assms by (simp add: Body_def drop_take add.commute)

text \<open>
  C5. Let \<open>L\<close> be the value of the last byte of the body. When the body has fewer than
  2 bytes, or \<open>L\<close> is outside 1 to 127, or fewer than \<open>L\<close> bytes stand before the
  last one, or no handler is registered under the \<open>L\<close> bytes before the last one,
  \<^verbatim>\<open>onRpcMethod\<close> returns normally, leaves the message as it is, and does exactly one
  thing: it sends one message built on \<^verbatim>\<open>CmdRpcError\<close> with the RPC sequence number of
  the request and a text that names the failure. No handler is called and the client is
  not stopped.
\<close>

theorem onRpcMethod_malformed_replies_error:
  assumes "length (Body P m) < 2 \<or>
           of_char (last (Body P m)) < (1::nat) \<or> (127::nat) < of_char (last (Body P m)) \<or>
           length (Body P m) - 1 < of_char (last (Body P m)) \<or>
           rpcLookup e (take (of_char (last (Body P m)))
                          (drop (length (Body P m) - 1 - of_char (last (Body P m))) (Body P m)))
             = None"
  shows "onRpcMethod P B e c m =
           (None,
            [SendMsg c (NewRpcMessage (CmdRpcError P) (RpcSeq P (data m))
               (if length (Body P m) < 2 then ''invalid rpc payload''
                else if of_char (last (Body P m)) < (1::nat) \<or>
                        (127::nat) < of_char (last (Body P m)) \<or>
                        length (Body P m) - 1 < of_char (last (Body P m))
                then ''invalid rpc method length '' @ itoa (of_char (last (Body P m))) @
                     '', should be (1-127)''
                else ''invalid rpc method '' @
                     take (of_char (last (Body P m)))
                       (drop (length (Body P m) - 1 - of_char (last (Body P m))) (Body P m))))],
            m)"
proof (cases "length (Body P m) < 2")
  case True
  then show ?thesis by (simp add: onRpcMethod_def)
next
  case False
  then have ne: "Body P m \<noteq> []" by auto
  have l: "Body P m ! (length (Body P m) - 1) = last (Body P m)"
    using ne by (simp add: last_conv_nth)
  show ?thesis
  proof (cases "of_char (last (Body P m)) < (1::nat) \<or> (127::nat) < of_char (last (Body P m)) \<or>
                length (Body P m) - 1 < of_char (last (Body P m))")
    case True
    with False l show ?thesis by (auto simp: onRpcMethod_def Let_def)
  next
    case b: False
    then have le: "(of_char (last (Body P m)) :: nat) \<le> length (Body P m) - 1" by simp
    from assms False b have
      "rpcLookup e (take (of_char (last (Body P m)))
                      (drop (length (Body P m) - 1 - of_char (last (Body P m))) (Body P m))) = None"
      by blast
    with False b l slice_name [OF le] show ?thesis
      by (simp add: onRpcMethod_def Let_def not_less)
  qed
qed

lemma Body_badLenMsg: "Body decls0 badLenMsg = ''hi'' @ [CHR 0xC8]"
  by (simp add: decls0_def badLenMsg_def Body_def rpcHead_def)

lemma RpcSeq_badLenMsg: "RpcSeq decls0 (data badLenMsg) = 9"
  by (simp add: decls0_def badLenMsg_def rpcHead_def le32_def)

theorem onRpcMethod_malformed_replies_error_witness:
  "(127::nat) < of_char (last (Body decls0 badLenMsg)) \<and>
   onRpcMethod decls0 panics echoEngine 1 badLenMsg =
     (None,
      [SendMsg 1 (NewRpcMessage (CmdRpcError decls0) 9
                    ''invalid rpc method length 200, should be (1-127)'')],
      badLenMsg)"
proof -
  have a: "(127::nat) < of_char (last (Body decls0 badLenMsg))"
    by (simp add: Body_badLenMsg)
  have i: "itoa 200 = ''200''" by (simp add: itoa.simps)
  from a have "length (Body decls0 badLenMsg) < 2 \<or>
           of_char (last (Body decls0 badLenMsg)) < (1::nat) \<or>
           (127::nat) < of_char (last (Body decls0 badLenMsg)) \<or>
           length (Body decls0 badLenMsg) - 1 < of_char (last (Body decls0 badLenMsg)) \<or>
           rpcLookup echoEngine (take (of_char (last (Body decls0 badLenMsg)))
                          (drop (length (Body decls0 badLenMsg) - 1 -
                                 of_char (last (Body decls0 badLenMsg))) (Body decls0 badLenMsg)))
             = None"
    by blast
  from onRpcMethod_malformed_replies_error [OF this, of panics 1]
  have "onRpcMethod decls0 panics echoEngine 1 badLenMsg =
     (None,
      [SendMsg 1 (NewRpcMessage (CmdRpcError decls0) 9
                    ''invalid rpc method length 200, should be (1-127)'')],
      badLenMsg)"
    by (simp add: Body_badLenMsg RpcSeq_badLenMsg i)
  with a show ?thesis by simp
qed

text \<open>
  C6. When the body is a payload, then a method name of \<open>L\<close> bytes, then one byte of
  value \<open>L\<close>, with \<open>L\<close> from 1 to 127, and a handler is registered under that name,
  \<^verbatim>\<open>onRpcMethod\<close> cuts the last \<open>L + 1\<close> bytes off the data of the message, in the
  message itself, and invokes the registered handler on a context that carries the name,
  the client and the cut message, whose body is the payload: the old body without its last
  \<open>L + 1\<close> bytes. That invocation is the only action: the call of the handler itself,
  whose panic leaves \<^verbatim>\<open>onRpcMethod\<close>, or, for a handler registered with the
  asynchronous flag, the call of the handler on that same context in a goroutine started
  by \<^verbatim>\<open>util.Go\<close>.
\<close>

theorem onRpcMethod_trims_and_invokes:
  assumes "Body P m = payload @ name @ [l]"
    and "length name = of_char l" and "(1::nat) \<le> of_char l" and "of_char l \<le> (127::nat)"
    and "rpcLookup e name = Some h"
  shows "onRpcMethod P B e c m =
           (case h of
              RpcDirect f \<Rightarrow>
                (B (CallRpc f \<lparr>rpcMethod = name, client = c,
                      message = m\<lparr>data := take (length (data m) - (of_char l + 1)) (data m)\<rparr>\<rparr>),
                 [CallRpc f \<lparr>rpcMethod = name, client = c,
                      message = m\<lparr>data := take (length (data m) - (of_char l + 1)) (data m)\<rparr>\<rparr>],
                 m\<lparr>data := take (length (data m) - (of_char l + 1)) (data m)\<rparr>)
            | RpcAsync f \<Rightarrow>
                (None,
                 [Go (CallRpc f \<lparr>rpcMethod = name, client = c,
                      message = m\<lparr>data := take (length (data m) - (of_char l + 1)) (data m)\<rparr>\<rparr>)],
                 m\<lparr>data := take (length (data m) - (of_char l + 1)) (data m)\<rparr>)) \<and>
         Body P (m\<lparr>data := take (length (data m) - (of_char l + 1)) (data m)\<rparr>) = payload \<and>
         Body P (m\<lparr>data := take (length (data m) - (of_char l + 1)) (data m)\<rparr>) =
           take (length (Body P m) - (of_char l + 1)) (Body P m)"
proof -
  let ?d = "Body P m"
  let ?L = "of_char l :: nat"
  have len: "length ?d = length payload + ?L + 1" using assms(1,2) by simp
  have g1: "\<not> length ?d < 2" using len assms(3) by simp
  have g2: "?d ! (length ?d - 1) = l"
    using assms(1) by (simp add: nth_append)
  have g3: "\<not> (?L \<le> 0 \<or> ?L \<ge> 128 \<or> length ?d - 1 < ?L)"
    using len assms(3,4) by simp
  have g4: "drop (length ?d - 1 - ?L) (take (length ?d - 1) ?d) = name"
    using assms(1,2) by simp
  have tr: "Body P (m\<lparr>data := take (length (data m) - 1 - ?L) (data m)\<rparr>) =
         take (length ?d - Suc ?L) ?d"
    by (rule Body_trim) (simp add: len)
  have "onRpcMethod P B e c m =
           (fst (callRpcEntry B h \<lparr>rpcMethod = name, client = c,
                   message = m\<lparr>data := take (length (data m) - 1 - ?L) (data m)\<rparr>\<rparr>),
            snd (callRpcEntry B h \<lparr>rpcMethod = name, client = c,
                   message = m\<lparr>data := take (length (data m) - 1 - ?L) (data m)\<rparr>\<rparr>),
            m\<lparr>data := take (length (data m) - 1 - ?L) (data m)\<rparr>)"
    using g1 g2 g3 g4 assms(5) by (simp add: onRpcMethod_def Let_def case_prod_beta)
  moreover have cut: "length (data m) - 1 - ?L = length (data m) - (?L + 1)" by simp
  moreover have "take (length ?d - Suc ?L) ?d = payload"
    using assms(1,2) by simp
  ultimately show ?thesis using tr
    by (cases h) (simp_all add: callRpcEntry_def)
qed

lemma Body_echoMsg: "Body decls0 echoMsg = ''hi'' @ ''echo'' @ [CHR 0x04]"
  by (simp add: decls0_def echoMsg_def Body_def rpcHead_def)

lemma rpcLookup_echoEngine: "rpcLookup echoEngine ''echo'' = Some (RpcDirect 5)"
  by (simp add: echoEngine_def HandleRpcMethod_def initRpcHandler_def rpcLookup_def
        NewTcpEngine_def Let_def)

lemma rpcLookup_asyncEchoEngine: "rpcLookup asyncEchoEngine ''echo'' = Some (RpcAsync 5)"
  by (simp add: asyncEchoEngine_def HandleRpcMethod_def initRpcHandler_def rpcLookup_def
        NewTcpEngine_def Let_def)

theorem onRpcMethod_trims_and_invokes_witness:
  "Body decls0 echoMsg = ''hi'' @ ''echo'' @ [CHR 0x04] \<and>
   length ''echo'' = of_char (CHR 0x04) \<and>
   rpcLookup echoEngine ''echo'' = Some (RpcDirect 5) \<and>
   onRpcMethod decls0 returns echoEngine 1 echoMsg =
     (None,
      [CallRpc 5 \<lparr>rpcMethod = ''echo'', client = 1,
                  message = \<lparr>data = rpcHead (CHR 0x07) @ ''hi'', rawData = []\<rparr>\<rparr>],
      \<lparr>data = rpcHead (CHR 0x07) @ ''hi'', rawData = []\<rparr>) \<and>
   Body decls0 \<lparr>data = rpcHead (CHR 0x07) @ ''hi'', rawData = []\<rparr> = ''hi'' \<and>
   rpcLookup asyncEchoEngine ''echo'' = Some (RpcAsync 5) \<and>
   onRpcMethod decls0 panics asyncEchoEngine 1 echoMsg =
     (None,
      [Go (CallRpc 5 \<lparr>rpcMethod = ''echo'', client = 1,
                      message = \<lparr>data = rpcHead (CHR 0x07) @ ''hi'', rawData = []\<rparr>\<rparr>)],
      \<lparr>data = rpcHead (CHR 0x07) @ ''hi'', rawData = []\<rparr>)"
proof -
  have a: "length ''echo'' = of_char (CHR 0x04)" "(1::nat) \<le> of_char (CHR 0x04)"
    "of_char (CHR 0x04) \<le> (127::nat)"
    by simp_all
  have t: "echoMsg\<lparr>data := take (length (data echoMsg) - (of_char (CHR 0x04) + 1)) (data echoMsg)\<rparr>
             = \<lparr>data = rpcHead (CHR 0x07) @ ''hi'', rawData = []\<rparr>"
    by (simp add: echoMsg_def rpcHead_def)
  from onRpcMethod_trims_and_invokes
         [OF Body_echoMsg a rpcLookup_echoEngine, of returns 1]
  have d: "onRpcMethod decls0 returns echoEngine 1 echoMsg =
     (None,
      [CallRpc 5 \<lparr>rpcMethod = ''echo'', client = 1,
                  message = \<lparr>data = rpcHead (CHR 0x07) @ ''hi'', rawData = []\<rparr>\<rparr>],
      \<lparr>data = rpcHead (CHR 0x07) @ ''hi'', rawData = []\<rparr>)"
    and b: "Body decls0 \<lparr>data = rpcHead (CHR 0x07) @ ''hi'', rawData = []\<rparr> = ''hi''"
    unfolding t by (simp_all add: returns_def)
  from onRpcMethod_trims_and_invokes
         [OF Body_echoMsg a rpcLookup_asyncEchoEngine, of panics 1]
  have s: "onRpcMethod decls0 panics asyncEchoEngine 1 echoMsg =
     (None,
      [Go (CallRpc 5 \<lparr>rpcMethod = ''echo'', client = 1,
                      message = \<lparr>data = rpcHead (CHR 0x07) @ ''hi'', rawData = []\<rparr>\<rparr>)],
      \<lparr>data = rpcHead (CHR 0x07) @ ''hi'', rawData = []\<rparr>)"
    unfolding t by simp
  from Body_echoMsg a rpcLookup_echoEngine d b rpcLookup_asyncEchoEngine s
  show ?thesis by simp
qed

end
